theory Spec2Isabelle
  imports Main "HOL-Library.Word"
begin

unbundle bit_operations_syntax

section \<open>Data model (jit.h)\<close>

text \<open>
  Memory model. Every heap object of the coordinator is reached through a handle:
  a \<open>jit_code\<close> and a \<open>jit_edge\<close> through a number drawn from an allocation
  counter, a \<open>jit_block_meta\<close> through its guest address (\<open>jit_alloc_meta\<close> is only
  reached after a failed lookup, so no two linked metas share an address). The heaps are
  total functions from handles to objects; \<open>free\<close> is not tracked. A null pointer is
  \<open>None\<close>. The three red-black trees are kept as the in-order sequence of the handles
  linked into them. A host pointer is a natural number.
\<close>

definition INVALID_ADDR :: "32 word" where
  "INVALID_ADDR = 0xffffffff"

datatype branch_type =
    BRANCH_FALL_THROUGH
  | BRANCH_STATIC
  | BRANCH_STATIC_TRUE
  | BRANCH_STATIC_FALSE
  | BRANCH_DYNAMIC
  | BRANCH_DYNAMIC_TRUE
  | BRANCH_DYNAMIC_FALSE

text \<open>
  \<open>compile_refs\<close> is the intrusive list of the compile units that use the meta; a unit
  is entered by the handle of its parent code. The C field \<open>size\<close> is \<open>msize\<close> here.
\<close>

record jit_block_meta =
  m_guest_addr :: "32 word"
  branch_type :: branch_type
  branch_addr :: "32 word"
  next_addr :: "32 word"
  num_instrs :: int
  num_cycles :: int
  msize :: int
  compile_refs :: "nat list"
  visited :: "32 word"

datatype jit_compile_unit =
  Unit (parent: nat) (u_meta: "32 word")
       (u_branch: "jit_compile_unit option") (u_next: "jit_compile_unit option")

record jit_edge =
  src :: nat
  dst :: nat
  branch :: nat
  patched :: bool

record jit_code =
  guest_addr :: "32 word"
  fastmem :: bool
  root_unit :: "jit_compile_unit option"
  host_addr :: nat
  host_size :: int
  in_edges :: "nat list"
  out_edges :: "nat list"

text \<open>
  What the coordinator asks of its collaborators and cannot be read back from its own
  state is kept in a trace: the frontend's \<open>analyze_code\<close> calls, the guest's
  \<open>patch_edge\<close> and \<open>restore_edge\<close> calls and the backend's \<open>reset\<close> calls.
\<close>

datatype event =
    AnalyzeCode "32 word"
  | PatchEdge nat nat
  | RestoreEdge nat "32 word"
  | BackendReset

text \<open>
  How a call can end other than by returning: a failed \<open>CHECK\<close> or \<open>LOG_FATAL\<close>
  aborts the process, a null pointer is dereferenced, or a collaborator never returns.
\<close>

datatype error = CheckFailed | NullDeref | Hang

text \<open>
  Modelled from the spec: the guest's dispatch cache (\<open>lookup_code\<close>, \<open>cache_code\<close>,
  \<open>invalidate_code\<close> of \<open>struct jit_guest\<close> are function pointers whose
  implementation is not part of the sources). \<open>lookup_code\<close> yields the cached host
  pointer or null, \<open>cache_code\<close> stores one, \<open>invalidate_code\<close> drops it.
\<close>

record jit =
  guest_cache :: "32 word \<Rightarrow> nat option"
  trace :: "event list"
  metas :: "32 word \<Rightarrow> jit_block_meta"
  meta :: "32 word list"
  codes :: "nat \<Rightarrow> jit_code"
  code :: "nat list"
  code_reverse :: "nat list"
  edges :: "nat \<Rightarrow> jit_edge"
  next_code :: nat
  next_edge :: nat
  visit_token :: "32 word"

type_synonym frontend = "jit_block_meta \<Rightarrow> error + jit_block_meta option"

section \<open>Meta cache\<close>

definition jit_lookup_meta :: "jit \<Rightarrow> 32 word \<Rightarrow> jit_block_meta option" where
  "jit_lookup_meta jit gaddr =
     (if gaddr \<in> set (meta jit) then Some (metas jit gaddr) else None)"

definition calloc_meta :: jit_block_meta where
  "calloc_meta = \<lparr> m_guest_addr = 0, branch_type = BRANCH_FALL_THROUGH, branch_addr = 0,
     next_addr = 0, num_instrs = 0, num_cycles = 0, msize = 0, compile_refs = [],
     visited = 0 \<rparr>"

definition new_meta :: "32 word \<Rightarrow> jit_block_meta" where
  "new_meta addr =
     calloc_meta\<lparr> m_guest_addr := addr, branch_addr := INVALID_ADDR,
                  next_addr := INVALID_ADDR \<rparr>"

definition jit_alloc_meta :: "jit \<Rightarrow> 32 word \<Rightarrow> jit" where
  "jit_alloc_meta jit addr =
     jit\<lparr> metas := (metas jit)(addr := new_meta addr), meta := insort addr (meta jit) \<rparr>"

definition jit_free_meta :: "jit \<Rightarrow> 32 word \<Rightarrow> error + jit" where
  "jit_free_meta jit m =
     (if compile_refs (metas jit m) \<noteq> [] then Inl CheckFailed
      else Inr (jit\<lparr> meta := removeAll m (meta jit) \<rparr>))"

section \<open>Block discovery\<close>

text \<open>
  The frontend gets the meta by pointer. Of what it hands back the analysis fields are
  kept; the address, the reference list and the visit stamp belong to the coordinator.
\<close>

definition frontend_fields :: "jit_block_meta \<Rightarrow> jit_block_meta \<Rightarrow> jit_block_meta" where
  "frontend_fields m r =
     m\<lparr> branch_type := branch_type r, branch_addr := branch_addr r,
        next_addr := next_addr r, num_instrs := num_instrs r,
        num_cycles := num_cycles r, msize := msize r \<rparr>"

text \<open>
  The part of \<open>jit_analyze_code_r\<close> under \<open>if (!meta)\<close>: allocate, analyze, and free
  again when the analysis fails. The flag tells whether a meta is there afterwards.
\<close>

definition jit_demand_meta :: "frontend \<Rightarrow> jit \<Rightarrow> 32 word \<Rightarrow> error + (bool \<times> jit)" where
  "jit_demand_meta fe jit gaddr =
     (case jit_lookup_meta jit gaddr of
        Some m \<Rightarrow> Inr (True, jit)
      | None \<Rightarrow>
          (let j1 = jit_alloc_meta jit gaddr;
               j2 = j1\<lparr> trace := trace j1 @ [AnalyzeCode gaddr] \<rparr>
           in case fe (metas j2 gaddr) of
                Inl e \<Rightarrow> Inl e
              | Inr None \<Rightarrow>
                  (case jit_free_meta j2 gaddr of
                     Inl e \<Rightarrow> Inl e
                   | Inr j3 \<Rightarrow> Inr (False, j3))
              | Inr (Some r) \<Rightarrow>
                  Inr (True, j2\<lparr> metas := (metas j2)
                         (gaddr := frontend_fields (metas j2 gaddr) r) \<rparr>)))"

definition stamped :: "jit \<Rightarrow> 32 word \<Rightarrow> bool" where
  "stamped jit a = (a \<in> set (meta jit) \<and> visited (metas jit a) = visit_token jit)"

definition jit_visit :: "jit \<Rightarrow> nat \<Rightarrow> 32 word \<Rightarrow> jit" where
  "jit_visit jit c a =
     jit\<lparr> metas := (metas jit)(a := (metas jit a)
            \<lparr> visited := visit_token jit,
              compile_refs := compile_refs (metas jit a) @ [c] \<rparr>) \<rparr>"

function jit_analyze_code_r ::
  "frontend \<Rightarrow> nat \<Rightarrow> jit \<Rightarrow> 32 word \<Rightarrow> error + (jit_compile_unit option \<times> jit)" where
  "jit_analyze_code_r fe c jit gaddr =
     (if gaddr = INVALID_ADDR then Inr (None, jit)
      else if stamped jit gaddr then Inr (None, jit)
      else
        (case jit_demand_meta fe jit gaddr of
           Inl e \<Rightarrow> Inl e
         | Inr (False, j1) \<Rightarrow> Inr (None, j1)
         | Inr (True, j1) \<Rightarrow>
             (let j2 = jit_visit j1 c gaddr in
              case jit_analyze_code_r fe c j2 (branch_addr (metas j2 gaddr)) of
                Inl e \<Rightarrow> Inl e
              | Inr (b, j3) \<Rightarrow>
                  (case jit_analyze_code_r fe c j3 (next_addr (metas j3 gaddr)) of
                     Inl e \<Rightarrow> Inl e
                   | Inr (n, j4) \<Rightarrow> Inr (Some (Unit c gaddr b n), j4)))))"
  by pat_completeness auto

lemma demand_meta_token:
  "jit_demand_meta fe jit a = Inr (ok, j1) \<Longrightarrow> visit_token j1 = visit_token jit"
  by (auto simp: jit_demand_meta_def jit_alloc_meta_def jit_free_meta_def Let_def
           split: option.splits sum.splits if_splits)

lemma demand_meta_stamped:
  "jit_demand_meta fe jit a = Inr (ok, j1) \<Longrightarrow> stamped jit x \<Longrightarrow> stamped j1 x"
  by (auto simp: jit_demand_meta_def jit_alloc_meta_def jit_free_meta_def Let_def
                 stamped_def jit_lookup_meta_def frontend_fields_def set_insort_key
           split: option.splits sum.splits if_splits)

lemma demand_meta_linked:
  "jit_demand_meta fe jit a = Inr (True, j1) \<Longrightarrow> a \<in> set (meta j1)"
  by (auto simp: jit_demand_meta_def jit_alloc_meta_def jit_free_meta_def Let_def
                 jit_lookup_meta_def set_insort_key
           split: option.splits sum.splits if_splits)

lemma visit_stamped:
  "stamped (jit_visit jit c a) x = (x \<in> set (meta jit) \<and> (x = a \<or> stamped jit x))"
  by (auto simp: jit_visit_def stamped_def)

lemma visit_keeps_stamped: "stamped jit x \<Longrightarrow> stamped (jit_visit jit c a) x"
  by (auto simp: jit_visit_def stamped_def)

lemma visit_token [simp]: "visit_token (jit_visit jit c a) = visit_token jit"
  by (simp add: jit_visit_def)

lemma analyze_r_mono_dom:
  "jit_analyze_code_r_dom (fe, c, jit, a) \<Longrightarrow>
   jit_analyze_code_r fe c jit a = Inr (u, j') \<Longrightarrow>
   visit_token j' = visit_token jit \<and> (\<forall>x. stamped jit x \<longrightarrow> stamped j' x)"
proof (induction fe c jit a arbitrary: u j' rule: jit_analyze_code_r.pinduct)
  case (1 fe c jit a)
  note eq = "1.prems"
  show ?case
  proof (cases "a = INVALID_ADDR \<or> stamped jit a")
    case True
    with eq "1.hyps" show ?thesis
      by (auto simp: jit_analyze_code_r.psimps split: if_splits)
  next
    case False
    then have na: "a \<noteq> INVALID_ADDR" and ns: "\<not> stamped jit a" by auto
    show ?thesis
    proof (cases "jit_demand_meta fe jit a")
      case (Inl e)
      with eq "1.hyps" na ns show ?thesis
        by (simp add: jit_analyze_code_r.psimps)
    next
      case (Inr r)
      obtain ok j1 where r: "r = (ok, j1)" by (cases r)
      note dm = Inr [unfolded r]
      show ?thesis
      proof (cases ok)
        case False
        with eq "1.hyps" na ns dm have "j' = j1"
          by (simp add: jit_analyze_code_r.psimps)
        with dm False show ?thesis
          using demand_meta_token demand_meta_stamped by blast
      next
        case True
        define j2 where "j2 = jit_visit j1 c a"
        from eq "1.hyps" na ns dm True obtain b j3 n where
          r1: "jit_analyze_code_r fe c j2 (branch_addr (metas j2 a)) = Inr (b, j3)" and
          r2: "jit_analyze_code_r fe c j3 (next_addr (metas j3 a)) = Inr (n, j')"
          by (auto simp: jit_analyze_code_r.psimps j2_def Let_def split: sum.splits)
        have okT: "ok = True" using True by simp
        from "1.IH"(1) [OF na ns dm refl okT refl r1 [unfolded j2_def]]
        have m1: "visit_token j3 = visit_token j2" "\<And>x. stamped j2 x \<Longrightarrow> stamped j3 x"
          by (auto simp: j2_def)
        from "1.IH"(2) [OF na ns dm refl okT refl r1 [unfolded j2_def] refl r2]
        have m2: "visit_token j' = visit_token j3" "\<And>x. stamped j3 x \<Longrightarrow> stamped j' x"
          by auto
        have m0: "stamped j2 x" if "stamped jit x" for x
        proof -
          from that have "stamped j1 x" by (rule demand_meta_stamped [OF dm])
          then show ?thesis by (simp add: j2_def visit_keeps_stamped)
        qed
        from m0 m1 m2 demand_meta_token [OF dm] show ?thesis
          by (auto simp: j2_def)
      qed
    qed
  qed
qed

termination jit_analyze_code_r
proof (relation "measure (\<lambda>(fe, c, jit, a). card {x. \<not> stamped jit x})", goal_cases)
  case 1
  show ?case by simp
next
  case (2 fe c jit a r ok j1 j2)
  then have dm: "jit_demand_meta fe jit a = Inr (True, j1)" by simp
  have "a \<in> set (meta j1)" by (rule demand_meta_linked [OF dm])
  then have a2: "stamped j2 a" by (simp add: 2 visit_stamped)
  have sub: "{x. \<not> stamped j2 x} \<subseteq> {x. \<not> stamped jit x}"
    using demand_meta_stamped [OF dm] by (auto simp: 2 intro: visit_keeps_stamped)
  have "{x. \<not> stamped j2 x} \<subset> {x. \<not> stamped jit x}"
    using sub a2 2 by auto
  then show ?case by (simp add: psubset_card_mono)
next
  case (3 fe c jit a r ok j1 j2 r1 b j3)
  then have dm: "jit_demand_meta fe jit a = Inr (True, j1)" by simp
  have "a \<in> set (meta j1)" by (rule demand_meta_linked [OF dm])
  then have a2: "stamped j2 a" by (simp add: 3 visit_stamped)
  have sub: "{x. \<not> stamped j2 x} \<subseteq> {x. \<not> stamped jit x}"
    using demand_meta_stamped [OF dm] by (auto simp: 3 intro: visit_keeps_stamped)
  from 3 have r1: "jit_analyze_code_r fe c j2 (branch_addr (metas j2 a)) = Inr (b, j3)"
    by simp
  from 3 have "jit_analyze_code_r_dom (fe, c, j2, branch_addr (metas j2 a))" by simp
  from analyze_r_mono_dom [OF this r1] have "\<And>x. stamped j2 x \<Longrightarrow> stamped j3 x" by simp
  with a2 sub have "{x. \<not> stamped j3 x} \<subset> {x. \<not> stamped jit x}"
    using 3 by auto
  then show ?case by (simp add: psubset_card_mono)
qed

declare jit_analyze_code_r.simps [simp del]


section \<open>Code cache\<close>

text \<open>
  Modelled from the spec: the ordered maps of \<open>core/rb_tree.h\<close>, which is not part of
  the sources. A tree is the sequence of its nodes in key order; \<open>rb_insert\<close> enters a
  node at its place in that order, \<open>rb_unlink\<close> takes the node out,
  \<open>rb_upper_bound\<close> yields the first node that the search key is less than, and
  \<open>rb_first\<close>, \<open>rb_last\<close>, \<open>rb_prev\<close> walk the sequence.
\<close>

definition rb_first :: "'a list \<Rightarrow> 'a option" where
  "rb_first t = (case t of [] \<Rightarrow> None | x # _ \<Rightarrow> Some x)"

definition rb_last :: "'a list \<Rightarrow> 'a option" where
  "rb_last t = (if t = [] then None else Some (last t))"

definition rb_upper_bound :: "('a \<Rightarrow> bool) \<Rightarrow> 'a list \<Rightarrow> 'a option" where
  "rb_upper_bound gt t = find gt t"

definition rb_prev :: "'a \<Rightarrow> 'a list \<Rightarrow> 'a option" where
  "rb_prev n t = rb_last (takeWhile (\<lambda>x. x \<noteq> n) t)"

definition rb_insert :: "('a \<Rightarrow> 'k::linorder) \<Rightarrow> 'a \<Rightarrow> 'a list \<Rightarrow> 'a list" where
  "rb_insert key n t = insort_key key n t"

definition rb_unlink :: "'a \<Rightarrow> 'a list \<Rightarrow> 'a list" where
  "rb_unlink n t = removeAll n t"

definition jit_lookup_code :: "jit \<Rightarrow> 32 word \<Rightarrow> nat option" where
  "jit_lookup_code jit gaddr = find (\<lambda>c. guest_addr (codes jit c) = gaddr) (code jit)"

text \<open>
  The last \<open>None\<close> of the inner case is not reached: a node other than the first has a
  predecessor, and a tree that is not empty has a last node.
\<close>

definition jit_lookup_code_reverse :: "jit \<Rightarrow> nat \<Rightarrow> nat option" where
  "jit_lookup_code_reverse jit p =
     (let first = rb_first (code_reverse jit);
          last = rb_last (code_reverse jit);
          rit = rb_upper_bound (\<lambda>c. p < host_addr (codes jit c)) (code_reverse jit)
      in if rit = first then None
         else
           (case (case rit of Some r \<Rightarrow> rb_prev r (code_reverse jit) | None \<Rightarrow> last) of
              Some c \<Rightarrow>
                if int p < int (host_addr (codes jit c)) \<or>
                   int p \<ge> int (host_addr (codes jit c)) + host_size (codes jit c)
                then None
                else Some c
            | None \<Rightarrow> None))"

definition jit_is_stale :: "jit \<Rightarrow> nat \<Rightarrow> bool" where
  "jit_is_stale jit c =
     (guest_cache jit (guest_addr (codes jit c)) \<noteq> Some (host_addr (codes jit c)))"

section \<open>Edges\<close>

text \<open>
  Modelled from the spec: \<open>list_add\<close> of \<open>core/list.h\<close> (not part of the sources)
  appends at the tail, the loops run from the head.
\<close>

definition patch_edge :: "nat \<Rightarrow> jit \<Rightarrow> jit" where
  "patch_edge e jit =
     (if \<not> patched (edges jit e)
      then jit\<lparr> edges := (edges jit)(e := (edges jit e)\<lparr> patched := True \<rparr>),
                trace := trace jit @
                  [PatchEdge (branch (edges jit e)) (host_addr (codes jit (dst (edges jit e))))] \<rparr>
      else jit)"

definition jit_patch_edges :: "jit \<Rightarrow> nat \<Rightarrow> jit" where
  "jit_patch_edges jit c =
     (let j1 = fold patch_edge (in_edges (codes jit c)) jit
      in fold patch_edge (out_edges (codes j1 c)) j1)"

definition restore_edge :: "nat \<Rightarrow> jit \<Rightarrow> jit" where
  "restore_edge e jit =
     (if patched (edges jit e)
      then jit\<lparr> edges := (edges jit)(e := (edges jit e)\<lparr> patched := False \<rparr>),
                trace := trace jit @
                  [RestoreEdge (branch (edges jit e)) (guest_addr (codes jit (dst (edges jit e))))] \<rparr>
      else jit)"

definition jit_restore_edges :: "jit \<Rightarrow> nat \<Rightarrow> jit" where
  "jit_restore_edges jit c = fold restore_edge (in_edges (codes jit c)) jit"

section \<open>Finalize, invalidate, free\<close>

definition jit_finalize_code :: "jit \<Rightarrow> nat \<Rightarrow> error + jit" where
  "jit_finalize_code jit c =
     (if \<not> (in_edges (codes jit c) = [] \<and> out_edges (codes jit c) = []) then Inl CheckFailed
      else if \<not> (c \<notin> set (code jit) \<and> c \<notin> set (code_reverse jit)) then Inl CheckFailed
      else Inr (jit\<lparr>
        guest_cache := (guest_cache jit)
          (guest_addr (codes jit c) := Some (host_addr (codes jit c))),
        code := rb_insert (\<lambda>x. guest_addr (codes jit x)) c (code jit),
        code_reverse := rb_insert (\<lambda>x. host_addr (codes jit x)) c (code_reverse jit) \<rparr>))"

fun jit_free_compile_unit :: "jit \<Rightarrow> jit_compile_unit option \<Rightarrow> jit" where
  "jit_free_compile_unit jit None = jit"
| "jit_free_compile_unit jit (Some (Unit p m b n)) =
     (let j1 = jit_free_compile_unit jit b;
          j2 = jit_free_compile_unit j1 n
      in j2\<lparr> metas := (metas j2)(m := (metas j2 m)
              \<lparr> compile_refs := remove1 p (compile_refs (metas j2 m)) \<rparr>) \<rparr>)"

definition unlink_in_edge :: "nat \<Rightarrow> nat \<Rightarrow> jit \<Rightarrow> jit" where
  "unlink_in_edge c e jit =
     (let s = src (edges jit e);
          j1 = jit\<lparr> codes := (codes jit)(s := (codes jit s)
                  \<lparr> out_edges := remove1 e (out_edges (codes jit s)) \<rparr>) \<rparr>
      in j1\<lparr> codes := (codes j1)(c := (codes j1 c)
              \<lparr> in_edges := remove1 e (in_edges (codes j1 c)) \<rparr>) \<rparr>)"

definition unlink_out_edge :: "nat \<Rightarrow> nat \<Rightarrow> jit \<Rightarrow> jit" where
  "unlink_out_edge c e jit =
     (let j1 = jit\<lparr> codes := (codes jit)(c := (codes jit c)
                  \<lparr> out_edges := remove1 e (out_edges (codes jit c)) \<rparr>) \<rparr>;
          d = dst (edges j1 e)
      in j1\<lparr> codes := (codes j1)(d := (codes j1 d)
              \<lparr> in_edges := remove1 e (in_edges (codes j1 d)) \<rparr>) \<rparr>)"

definition jit_invalidate_code :: "jit \<Rightarrow> nat \<Rightarrow> jit" where
  "jit_invalidate_code jit c =
     (let j1 = jit_free_compile_unit jit (root_unit (codes jit c));
          j2 = j1\<lparr> codes := (codes j1)(c := (codes j1 c)\<lparr> root_unit := None \<rparr>) \<rparr>;
          j3 = j2\<lparr> guest_cache := (guest_cache j2)(guest_addr (codes j2 c) := None) \<rparr>;
          j4 = jit_restore_edges j3 c;
          j5 = fold (unlink_in_edge c) (in_edges (codes j4 c)) j4
      in fold (unlink_out_edge c) (out_edges (codes j5 c)) j5)"

definition jit_free_code :: "jit \<Rightarrow> nat \<Rightarrow> jit" where
  "jit_free_code jit c =
     (let j1 = jit_invalidate_code jit c;
          j2 = (if c \<in> set (code j1) then j1\<lparr> code := rb_unlink c (code j1) \<rparr> else j1)
      in if c \<in> set (code_reverse j2)
         then j2\<lparr> code_reverse := rb_unlink c (code_reverse j2) \<rparr> else j2)"

definition calloc_code :: jit_code where
  "calloc_code = \<lparr> guest_addr = 0, fastmem = False, root_unit = None, host_addr = 0,
     host_size = 0, in_edges = [], out_edges = [] \<rparr>"

definition jit_alloc_code :: "jit \<Rightarrow> nat \<times> jit" where
  "jit_alloc_code jit =
     (next_code jit,
      jit\<lparr> codes := (codes jit)(next_code jit := calloc_code),
           next_code := Suc (next_code jit) \<rparr>)"

fun jit_free_metas :: "jit \<Rightarrow> 32 word list \<Rightarrow> error + jit" where
  "jit_free_metas jit [] = Inr jit"
| "jit_free_metas jit (m # ms) =
     (case jit_free_meta jit m of
        Inl e \<Rightarrow> Inl e
      | Inr j1 \<Rightarrow> jit_free_metas j1 ms)"

definition jit_invalidate_cache :: "jit \<Rightarrow> error + jit" where
  "jit_invalidate_cache jit =
     (let j1 = fold (\<lambda>c j. jit_invalidate_code j c) (code jit) jit
      in case jit_free_metas j1 (meta j1) of
           Inl e \<Rightarrow> Inl e
         | Inr j2 \<Rightarrow> if meta j2 \<noteq> [] then Inl CheckFailed else Inr j2)"

definition jit_free_cache :: "jit \<Rightarrow> error + jit" where
  "jit_free_cache jit =
     (let j1 = fold (\<lambda>c j. jit_free_code j c) (code jit) jit
      in if code j1 \<noteq> [] then Inl CheckFailed
         else if code_reverse j1 \<noteq> [] then Inl CheckFailed
         else
           (case jit_free_metas j1 (meta j1) of
              Inl e \<Rightarrow> Inl e
            | Inr j2 \<Rightarrow>
                if meta j2 \<noteq> [] then Inl CheckFailed
                else Inr (j2\<lparr> trace := trace j2 @ [BackendReset] \<rparr>)))"

section \<open>Public operations\<close>

text \<open>
  \<open>jit_is_stale\<close> reads \<open>src->guest_addr\<close> before \<open>dst\<close> is looked at, so a null
  \<open>src\<close> is dereferenced.
\<close>

definition jit_add_edge :: "jit \<Rightarrow> nat \<Rightarrow> 32 word \<Rightarrow> error + jit" where
  "jit_add_edge jit br addr =
     (let s = jit_lookup_code_reverse jit br;
          d = jit_lookup_code jit addr
      in case s of
           None \<Rightarrow> Inl NullDeref
         | Some sc \<Rightarrow>
             (case d of
                None \<Rightarrow> Inr jit
              | Some dc \<Rightarrow>
                  if jit_is_stale jit sc then Inr jit
                  else
                    (let e = next_edge jit;
                         j1 = jit\<lparr> edges := (edges jit)
                                (e := \<lparr> src = sc, dst = dc, branch = br, patched = False \<rparr>),
                              next_edge := Suc e \<rparr>;
                         j2 = j1\<lparr> codes := (codes j1)(sc := (codes j1 sc)
                                \<lparr> out_edges := out_edges (codes j1 sc) @ [e] \<rparr>) \<rparr>;
                         j3 = j2\<lparr> codes := (codes j2)(dc := (codes j2 dc)
                                \<lparr> in_edges := in_edges (codes j2 dc) @ [e] \<rparr>) \<rparr>
                     in Inr (jit_patch_edges j3 sc))))"

definition jit_analyze_code :: "frontend \<Rightarrow> jit \<Rightarrow> nat \<Rightarrow> error + jit" where
  "jit_analyze_code fe jit c =
     (let j1 = jit\<lparr> visit_token := visit_token jit + 1 \<rparr>
      in case jit_analyze_code_r fe c j1 (guest_addr (codes j1 c)) of
           Inl e \<Rightarrow> Inl e
         | Inr (root, j2) \<Rightarrow>
             (let j3 = j2\<lparr> codes := (codes j2)(c := (codes j2 c)\<lparr> root_unit := root \<rparr>) \<rparr>
              in if root = None then Inl CheckFailed else Inr j3))"

text \<open>
  \<open>jit_compile_code\<close>. \<open>ndebug\<close> tells whether \<open>NDEBUG\<close> is defined, \<open>fe\<close> is the
  frontend's \<open>analyze_code\<close>, and \<open>asm\<close> is what the backend's \<open>assemble_code\<close>
  answers: the host address and size it wrote into the code, or \<open>None\<close> when it
  returned 0. The translation to IR, the IR dump and the passes work on the IR buffer
  only and do not show in the coordinator's state.
\<close>

definition jit_compile_code ::
  "bool \<Rightarrow> frontend \<Rightarrow> (nat \<times> int) option \<Rightarrow> jit \<Rightarrow> 32 word \<Rightarrow> error + jit" where
  "jit_compile_code ndebug fe asm jit gaddr =
     (let fastmem0 = ndebug;
          existing = jit_lookup_code jit gaddr;
          (fm, j1) = (case existing of
                        Some ex \<Rightarrow> (fastmem (codes jit ex), jit_free_code jit ex)
                      | None \<Rightarrow> (fastmem0, jit));
          (c, j2) = jit_alloc_code j1;
          j3 = j2\<lparr> codes := (codes j2)(c := (codes j2 c)
                 \<lparr> guest_addr := gaddr, fastmem := fm \<rparr>) \<rparr>
      in case jit_analyze_code fe j3 c of
           Inl e \<Rightarrow> Inl e
         | Inr j4 \<Rightarrow>
             (case asm of
                Some (h, sz) \<Rightarrow>
                  jit_finalize_code
                    (j4\<lparr> codes := (codes j4)(c := (codes j4 c)
                          \<lparr> host_addr := h, host_size := sz \<rparr>) \<rparr>) c
              | None \<Rightarrow> jit_free_cache (jit_free_code j4 c)))"

text \<open>
  \<open>jit_handle_exception\<close>; \<open>handled\<close> is what the backend's \<open>handle_exception\<close>
  answers when it is asked.
\<close>

definition jit_handle_exception :: "jit \<Rightarrow> nat \<Rightarrow> bool \<Rightarrow> int \<times> jit" where
  "jit_handle_exception jit pc handled =
     (case jit_lookup_code_reverse jit pc of
        None \<Rightarrow> (0, jit)
      | Some c \<Rightarrow>
          if \<not> handled then (0, jit)
          else (1, jit_invalidate_code
                     (jit\<lparr> codes := (codes jit)(c := (codes jit c)\<lparr> fastmem := False \<rparr>) \<rparr>) c))"

definition jit_create :: jit where
  "jit_create = \<lparr> guest_cache = (\<lambda>_. None), trace = [], metas = (\<lambda>_. calloc_meta),
     meta = [], codes = (\<lambda>_. calloc_code), code = [], code_reverse = [],
     edges = (\<lambda>_. \<lparr> src = 0, dst = 0, branch = 0, patched = False \<rparr>),
     next_code = 0, next_edge = 0, visit_token = 0 \<rparr>"

text \<open>The metas of the units of a compile-unit tree, root first, branch before next.\<close>

fun unit_addrs :: "jit_compile_unit option \<Rightarrow> 32 word list" where
  "unit_addrs None = []"
| "unit_addrs (Some (Unit p m b n)) = m # unit_addrs b @ unit_addrs n"

section \<open>Frame properties of the edge loops and of invalidation\<close>

lemma fold_remove1_self: "fold remove1 xs (xs @ ys) = ys"
  by (induction xs) auto

lemma restore_edge_frame [simp]:
  "codes (restore_edge e jit) = codes jit"
  "guest_cache (restore_edge e jit) = guest_cache jit"
  "metas (restore_edge e jit) = metas jit"
  "meta (restore_edge e jit) = meta jit"
  "code (restore_edge e jit) = code jit"
  "code_reverse (restore_edge e jit) = code_reverse jit"
  "next_code (restore_edge e jit) = next_code jit"
  "next_edge (restore_edge e jit) = next_edge jit"
  "visit_token (restore_edge e jit) = visit_token jit"
  by (simp_all add: restore_edge_def)

lemma fold_restore_edge_frame [simp]:
  "codes (fold restore_edge es jit) = codes jit"
  "guest_cache (fold restore_edge es jit) = guest_cache jit"
  "metas (fold restore_edge es jit) = metas jit"
  "meta (fold restore_edge es jit) = meta jit"
  "code (fold restore_edge es jit) = code jit"
  "code_reverse (fold restore_edge es jit) = code_reverse jit"
  "next_code (fold restore_edge es jit) = next_code jit"
  "next_edge (fold restore_edge es jit) = next_edge jit"
  "visit_token (fold restore_edge es jit) = visit_token jit"
  by (induction es arbitrary: jit; simp)+

lemma unlink_in_edge_frame [simp]:
  "guest_cache (unlink_in_edge c e jit) = guest_cache jit"
  "trace (unlink_in_edge c e jit) = trace jit"
  "edges (unlink_in_edge c e jit) = edges jit"
  "metas (unlink_in_edge c e jit) = metas jit"
  "meta (unlink_in_edge c e jit) = meta jit"
  "code (unlink_in_edge c e jit) = code jit"
  "code_reverse (unlink_in_edge c e jit) = code_reverse jit"
  "next_code (unlink_in_edge c e jit) = next_code jit"
  "next_edge (unlink_in_edge c e jit) = next_edge jit"
  "visit_token (unlink_in_edge c e jit) = visit_token jit"
  by (simp_all add: unlink_in_edge_def Let_def)

lemma unlink_out_edge_frame [simp]:
  "guest_cache (unlink_out_edge c e jit) = guest_cache jit"
  "trace (unlink_out_edge c e jit) = trace jit"
  "edges (unlink_out_edge c e jit) = edges jit"
  "metas (unlink_out_edge c e jit) = metas jit"
  "meta (unlink_out_edge c e jit) = meta jit"
  "code (unlink_out_edge c e jit) = code jit"
  "code_reverse (unlink_out_edge c e jit) = code_reverse jit"
  "next_code (unlink_out_edge c e jit) = next_code jit"
  "next_edge (unlink_out_edge c e jit) = next_edge jit"
  "visit_token (unlink_out_edge c e jit) = visit_token jit"
  by (simp_all add: unlink_out_edge_def Let_def)

lemma fold_unlink_in_frame [simp]:
  "guest_cache (fold (unlink_in_edge c) es jit) = guest_cache jit"
  "trace (fold (unlink_in_edge c) es jit) = trace jit"
  "edges (fold (unlink_in_edge c) es jit) = edges jit"
  "metas (fold (unlink_in_edge c) es jit) = metas jit"
  "meta (fold (unlink_in_edge c) es jit) = meta jit"
  "code (fold (unlink_in_edge c) es jit) = code jit"
  "code_reverse (fold (unlink_in_edge c) es jit) = code_reverse jit"
  "next_code (fold (unlink_in_edge c) es jit) = next_code jit"
  "next_edge (fold (unlink_in_edge c) es jit) = next_edge jit"
  "visit_token (fold (unlink_in_edge c) es jit) = visit_token jit"
  by (induction es arbitrary: jit; simp)+

lemma fold_unlink_out_frame [simp]:
  "guest_cache (fold (unlink_out_edge c) es jit) = guest_cache jit"
  "trace (fold (unlink_out_edge c) es jit) = trace jit"
  "edges (fold (unlink_out_edge c) es jit) = edges jit"
  "metas (fold (unlink_out_edge c) es jit) = metas jit"
  "meta (fold (unlink_out_edge c) es jit) = meta jit"
  "code (fold (unlink_out_edge c) es jit) = code jit"
  "code_reverse (fold (unlink_out_edge c) es jit) = code_reverse jit"
  "next_code (fold (unlink_out_edge c) es jit) = next_code jit"
  "next_edge (fold (unlink_out_edge c) es jit) = next_edge jit"
  "visit_token (fold (unlink_out_edge c) es jit) = visit_token jit"
  by (induction es arbitrary: jit; simp)+

text \<open>The fields of a code that the edge loops leave alone.\<close>

definition code_keys :: "jit_code \<Rightarrow> 32 word \<times> bool \<times> jit_compile_unit option \<times> nat \<times> int" where
  "code_keys k = (guest_addr k, fastmem k, root_unit k, host_addr k, host_size k)"

lemma unlink_in_edge_keys [simp]:
  "code_keys (codes (unlink_in_edge c e jit) x) = code_keys (codes jit x)"
  by (simp add: unlink_in_edge_def Let_def code_keys_def)

lemma unlink_out_edge_keys [simp]:
  "code_keys (codes (unlink_out_edge c e jit) x) = code_keys (codes jit x)"
  by (simp add: unlink_out_edge_def Let_def code_keys_def)

lemma fold_unlink_in_keys [simp]:
  "code_keys (codes (fold (unlink_in_edge c) es jit) x) = code_keys (codes jit x)"
  by (induction es arbitrary: jit) simp_all

lemma fold_unlink_out_keys [simp]:
  "code_keys (codes (fold (unlink_out_edge c) es jit) x) = code_keys (codes jit x)"
  by (induction es arbitrary: jit) simp_all

lemma fold_unlink_in_in_edges:
  "in_edges (codes (fold (unlink_in_edge c) es jit) c) = fold remove1 es (in_edges (codes jit c))"
  by (induction es arbitrary: jit) (simp_all add: unlink_in_edge_def Let_def)

lemma fold_unlink_out_out_edges:
  "out_edges (codes (fold (unlink_out_edge c) es jit) c) = fold remove1 es (out_edges (codes jit c))"
  by (induction es arbitrary: jit) (simp_all add: unlink_out_edge_def Let_def)

lemma fold_unlink_out_in_edges_nil:
  "in_edges (codes jit c) = [] \<Longrightarrow> in_edges (codes (fold (unlink_out_edge c) es jit) c) = []"
  by (induction es arbitrary: jit) (simp_all add: unlink_out_edge_def Let_def)


lemma free_compile_unit_frame [simp]:
  "guest_cache (jit_free_compile_unit jit u) = guest_cache jit"
  "trace (jit_free_compile_unit jit u) = trace jit"
  "edges (jit_free_compile_unit jit u) = edges jit"
  "codes (jit_free_compile_unit jit u) = codes jit"
  "meta (jit_free_compile_unit jit u) = meta jit"
  "code (jit_free_compile_unit jit u) = code jit"
  "code_reverse (jit_free_compile_unit jit u) = code_reverse jit"
  "next_code (jit_free_compile_unit jit u) = next_code jit"
  "next_edge (jit_free_compile_unit jit u) = next_edge jit"
  "visit_token (jit_free_compile_unit jit u) = visit_token jit"
  by (induction jit u rule: jit_free_compile_unit.induct; simp add: Let_def)+

lemma invalidate_code_trees [simp]:
  "meta (jit_invalidate_code jit c) = meta jit"
  "code (jit_invalidate_code jit c) = code jit"
  "code_reverse (jit_invalidate_code jit c) = code_reverse jit"
  "next_code (jit_invalidate_code jit c) = next_code jit"
  "next_edge (jit_invalidate_code jit c) = next_edge jit"
  "visit_token (jit_invalidate_code jit c) = visit_token jit"
  by (simp_all add: jit_invalidate_code_def Let_def jit_restore_edges_def)

lemma keys_eqD:
  "code_keys a = code_keys b \<Longrightarrow>
   guest_addr a = guest_addr b \<and> fastmem a = fastmem b \<and> root_unit a = root_unit b \<and>
   host_addr a = host_addr b \<and> host_size a = host_size b"
  by (simp add: code_keys_def)

lemma invalidate_code_cleared:
  "root_unit (codes (jit_invalidate_code jit c) c) = None"
  "in_edges (codes (jit_invalidate_code jit c) c) = []"
  "out_edges (codes (jit_invalidate_code jit c) c) = []"
  "guest_addr (codes (jit_invalidate_code jit c) x) = guest_addr (codes jit x)"
  "guest_cache (jit_invalidate_code jit c) = (guest_cache jit)(guest_addr (codes jit c) := None)"
proof -
  define j1 where "j1 = jit_free_compile_unit jit (root_unit (codes jit c))"
  define j2 where "j2 = j1\<lparr> codes := (codes j1)(c := (codes j1 c)\<lparr> root_unit := None \<rparr>) \<rparr>"
  define j3 where "j3 = j2\<lparr> guest_cache := (guest_cache j2)(guest_addr (codes j2 c) := None) \<rparr>"
  define j4 where "j4 = jit_restore_edges j3 c"
  define j5 where "j5 = fold (unlink_in_edge c) (in_edges (codes j4 c)) j4"
  define j6 where "j6 = fold (unlink_out_edge c) (out_edges (codes j5 c)) j5"
  have inv: "jit_invalidate_code jit c = j6"
    by (simp add: jit_invalidate_code_def Let_def j1_def j2_def j3_def j4_def j5_def j6_def)
  have k4: "codes j4 = codes j2"
    by (simp add: j4_def j3_def jit_restore_edges_def)
  have k65: "code_keys (codes j6 x) = code_keys (codes j5 x)" for x
    by (simp add: j6_def)
  have k54: "code_keys (codes j5 x) = code_keys (codes j4 x)" for x
    by (simp add: j5_def)
  have k: "code_keys (codes j6 x) = code_keys (codes j2 x)" for x
    using k65 k54 k4 by simp
  show "root_unit (codes (jit_invalidate_code jit c) c) = None"
    using keys_eqD [OF k [of c]] by (simp add: inv j2_def)
  show "guest_addr (codes (jit_invalidate_code jit c) x) = guest_addr (codes jit x)"
    using keys_eqD [OF k [of x]] by (simp add: inv j2_def j1_def)
  have i5: "in_edges (codes j5 c) = []"
    unfolding j5_def fold_unlink_in_in_edges using fold_remove1_self [of _ "[]"] by simp
  show "in_edges (codes (jit_invalidate_code jit c) c) = []"
    unfolding inv j6_def by (rule fold_unlink_out_in_edges_nil [OF i5])
  show "out_edges (codes (jit_invalidate_code jit c) c) = []"
    unfolding inv j6_def fold_unlink_out_out_edges using fold_remove1_self [of _ "[]"] by simp
  show "guest_cache (jit_invalidate_code jit c) = (guest_cache jit)(guest_addr (codes jit c) := None)"
    by (simp add: inv j6_def j5_def j4_def jit_restore_edges_def j3_def j2_def j1_def)
qed

lemma code_root_unit_same: "root_unit k = None \<Longrightarrow> k\<lparr> root_unit := None \<rparr> = k"
  by (cases k) simp

lemma guest_cache_same:
  "guest_cache jit g = None \<Longrightarrow> jit\<lparr> guest_cache := (guest_cache jit)(g := None) \<rparr> = jit"
  by (cases jit) (simp add: fun_upd_idem)

lemma codes_same: "jit\<lparr> codes := codes jit \<rparr> = jit"
  by (cases jit) simp

text \<open>
  Claim C7. Invalidating a code twice in a row leaves the same state as invalidating it
  once: after the first call the code has no root unit and empty \<open>in_edges\<close> and
  \<open>out_edges\<close>, so the second call frees no unit, restores and destroys no edge and
  changes no map.
\<close>

theorem invalidate_code_twice:
  "jit_invalidate_code (jit_invalidate_code jit c) c = jit_invalidate_code jit c \<and>
   root_unit (codes (jit_invalidate_code jit c) c) = None \<and>
   in_edges (codes (jit_invalidate_code jit c) c) = [] \<and>
   out_edges (codes (jit_invalidate_code jit c) c) = []"
proof -
  define j where "j = jit_invalidate_code jit c"
  have r: "root_unit (codes j c) = None" and i: "in_edges (codes j c) = []"
    and out: "out_edges (codes j c) = []"
    and g: "guest_cache j (guest_addr (codes j c)) = None"
    by (simp_all add: j_def invalidate_code_cleared)
  have "jit_invalidate_code j c = j"
    unfolding jit_invalidate_code_def [of j c]
    by (simp add: Let_def r i out g jit_restore_edges_def code_root_unit_same codes_same
                  guest_cache_same)
  with r i out show ?thesis by (simp add: j_def)
qed


theorem invalidate_code_twice_witness:
  "jit_invalidate_code (jit_invalidate_code jit_create 0) 0 = jit_invalidate_code jit_create 0"
  using invalidate_code_twice [of jit_create 0] by simp

text \<open>
  Claim C10. When the reverse lookup finds no code around the faulting pc, or the backend
  declines the exception, \<open>jit_handle_exception\<close> returns 0 and the state is the one
  it was given: no \<open>fastmem\<close> flag is written, nothing is invalidated, no list or
  map changes.
\<close>

theorem handle_exception_declined:
  "jit_lookup_code_reverse jit pc = None \<or> \<not> handled \<Longrightarrow>
   jit_handle_exception jit pc handled = (0, jit)"
  by (auto simp: jit_handle_exception_def split: option.splits)

theorem handle_exception_declined_witness:
  "jit_lookup_code_reverse jit_create 5 = None \<and>
   jit_handle_exception jit_create 5 True = (0, jit_create)"
proof -
  have h: "jit_lookup_code_reverse jit_create 5 = None"
    by (simp add: jit_lookup_code_reverse_def jit_create_def rb_first_def rb_last_def
                  rb_upper_bound_def)
  from handle_exception_declined [of jit_create 5 True] h show ?thesis by simp
qed

lemma removeAll_insort: "a \<notin> set xs \<Longrightarrow> removeAll a (insort a xs) = xs"
  by (induction xs) auto

lemma demand_meta_cases:
  assumes "jit_demand_meta fe jit a = Inr (ok, j1)"
  shows "(a \<in> set (meta jit) \<and> ok \<and> j1 = jit) \<or>
         (a \<notin> set (meta jit) \<and> \<not> ok \<and> fe (new_meta a) = Inr None \<and>
            j1 = jit\<lparr> metas := (metas jit)(a := new_meta a),
                       trace := trace jit @ [AnalyzeCode a] \<rparr>) \<or>
         (\<exists>r. a \<notin> set (meta jit) \<and> ok \<and> fe (new_meta a) = Inr (Some r) \<and>
            j1 = jit\<lparr> metas := (metas jit)(a := frontend_fields (new_meta a) r),
                       meta := insort a (meta jit),
                       trace := trace jit @ [AnalyzeCode a] \<rparr>)"
  using assms
  by (auto simp: jit_demand_meta_def jit_alloc_meta_def jit_free_meta_def Let_def
                 jit_lookup_meta_def removeAll_insort new_meta_def calloc_meta_def
           split: option.splits sum.splits if_splits)


end
